theory Spec2Isabelle
  imports Complex_Main "HOL-Library.Multiset" "HOL-Library.List_Lexorder" "HOL-Library.Char_ord"
begin

section \<open>Python values shared by the three components\<close>

text \<open>
  Floats are idealised as real numbers: rounding is outside the model. The one float
  effect that changes control flow, the \<^verbatim>\<open>OverflowError\<close> of \<^verbatim>\<open>math.exp\<close>,
  is kept (see \<open>py_exp\<close>). A dictionary with string keys read through \<^verbatim>\<open>.get\<close> is a
  record of optional fields: \<open>None\<close> is an absent key (or the value \<^verbatim>\<open>None\<close>).
\<close>

definition truthy_str :: "string option \<Rightarrow> bool" where
  \<comment> \<open>Python truth value of an optional string: absent, \<^verbatim>\<open>None\<close> and \<^verbatim>\<open>""\<close> are false.\<close>
  "truthy_str v = (case v of None \<Rightarrow> False | Some s \<Rightarrow> s \<noteq> [])"

definition get0 :: "real option \<Rightarrow> real" where
  \<comment> \<open>\<^verbatim>\<open>d.get(key, 0)\<close>\<close>
  "get0 v = (case v of None \<Rightarrow> 0 | Some x \<Rightarrow> x)"

definition or_default :: "real option \<Rightarrow> real \<Rightarrow> real" where
  \<comment> \<open>\<^verbatim>\<open>v or d\<close> on an optional float: \<^verbatim>\<open>None\<close> and \<^verbatim>\<open>0.0\<close> are false.\<close>
  "or_default v d = (case v of None \<Rightarrow> d | Some x \<Rightarrow> if x = 0 then d else x)"

definition or_default_int :: "int option \<Rightarrow> int \<Rightarrow> int" where
  \<comment> \<open>\<^verbatim>\<open>v or d\<close> on an optional integer: \<^verbatim>\<open>None\<close> and \<^verbatim>\<open>0\<close> are false.\<close>
  "or_default_int v d = (case v of None \<Rightarrow> d | Some x \<Rightarrow> if x = 0 then d else x)"

definition clamp01 :: "real \<Rightarrow> real" where
  \<comment> \<open>\<^verbatim>\<open>min(1.0, max(0.0, x))\<close>\<close>
  "clamp01 x = min 1 (max 0 x)"

fun join :: "string \<Rightarrow> string list \<Rightarrow> string" where
  \<comment> \<open>\<^verbatim>\<open>sep.join(parts)\<close>\<close>
  "join sep [] = []"
| "join sep [x] = x"
| "join sep (x # y # ys) = x @ sep @ join sep (y # ys)"

section \<open>Settings: \<^verbatim>\<open>src/config.py\<close>\<close>

record settings =
  max_context_tokens :: int
  profile_memory_tokens :: int
  semantic_memory_tokens :: int
  episodic_memory_tokens :: int
  procedural_memory_tokens :: int
  entity_memory_tokens :: int
  conversation_history_tokens :: int
  keyword_match_weight :: real
  vector_similarity_weight :: real
  st_reliability_weight :: real
  st_recency_weight :: real
  st_frequency_weight :: real

definition default_settings :: settings where
  "default_settings = \<lparr>
     max_context_tokens = 5000,
     profile_memory_tokens = 600,
     semantic_memory_tokens = 1500,
     episodic_memory_tokens = 1500,
     procedural_memory_tokens = 400,
     entity_memory_tokens = 300,
     conversation_history_tokens = 300,
     keyword_match_weight = 35 / 100,
     vector_similarity_weight = 25 / 100,
     st_reliability_weight = 20 / 100,
     st_recency_weight = 15 / 100,
     st_frequency_weight = 5 / 100 \<rparr>"

section \<open>HybridRanker: \<^verbatim>\<open>src/core/hybrid_ranker.py\<close>\<close>

text \<open>
  \<open>created_at\<close> is read against the clock (\<^verbatim>\<open>datetime.utcnow()\<close>). The model takes the
  outcome of parsing and of the subtraction as the field's value: \<open>AgeDays d\<close> is a
  timestamp that parses, with \<^verbatim>\<open>(now - created_at).days = d\<close> (negative for a timestamp
  in the future); \<open>BadTimestamp\<close> is a non-empty value on which \<^verbatim>\<open>fromisoformat\<close> or the
  subtraction raises. An absent, \<^verbatim>\<open>None\<close> or empty \<open>created_at\<close> is \<open>None\<close>.
\<close>

datatype timestamp = AgeDays int | BadTimestamp

record result =
  memory_id :: "string option"
  keyword_score :: "real option"
  vector_score :: "real option"
  reliability_score :: "real option"
  recency_score :: "real option"
  frequency_score :: "real option"
  score :: "real option"
  match_type :: "string option"
  reliability :: "real option"
  created_at :: "timestamp option"
  access_count :: "int option"

record HybridRanker =
  keyword_weight :: real
  vector_weight :: real
  reliability_weight :: real
  recency_weight :: real
  frequency_weight :: real

definition HybridRanker_init ::
  "settings \<Rightarrow> real option \<Rightarrow> real option \<Rightarrow> real option \<Rightarrow> real option \<Rightarrow> real option
     \<Rightarrow> HybridRanker" where
  \<comment> \<open>The check of the weight sum only logs a warning; it changes no value.\<close>
  "HybridRanker_init st kw vw rw rcw fw = \<lparr>
     keyword_weight = or_default kw (keyword_match_weight st),
     vector_weight = or_default vw (vector_similarity_weight st),
     reliability_weight = or_default rw (st_reliability_weight st),
     recency_weight = or_default rcw (st_recency_weight st),
     frequency_weight = or_default fw (st_frequency_weight st) \<rparr>"



definition truthy_strs :: "string option \<Rightarrow> string list" where
  \<comment> \<open>The value of an optional string when it is true, as a list of at most one element.\<close>
  "truthy_strs v = (case v of None \<Rightarrow> [] | Some s \<Rightarrow> if s = [] then [] else [s])"

definition merge_match_type :: "result \<Rightarrow> result \<Rightarrow> string" where
  \<comment> \<open>\<open>types\<close> is the source's set, kept without duplicates.\<close>
  "merge_match_type result1 result2 =
     (let types = remdups (truthy_strs (match_type result1) @ truthy_strs (match_type result2))
      in if length types > 1 then join '','' (sort types)
         else (case types of t # _ \<Rightarrow> t | [] \<Rightarrow> ''hybrid''))"

definition merge_results :: "result \<Rightarrow> result \<Rightarrow> result" where
  "merge_results result1 result2 = result1 \<lparr>
     keyword_score := Some (max (get0 (keyword_score result1)) (get0 (keyword_score result2))),
     vector_score := Some (max (get0 (vector_score result1)) (get0 (vector_score result2))),
     reliability_score :=
       Some (max (get0 (reliability_score result1)) (get0 (reliability_score result2))),
     recency_score := Some (max (get0 (recency_score result1)) (get0 (recency_score result2))),
     frequency_score :=
       Some (max (get0 (frequency_score result1)) (get0 (frequency_score result2))),
     score := Some (max (get0 (score result1)) (get0 (score result2))),
     match_type := Some (merge_match_type result1 result2) \<rparr>"

fun dict_set :: "'k \<Rightarrow> 'v \<Rightarrow> ('k \<times> 'v) list \<Rightarrow> ('k \<times> 'v) list" where
  \<comment> \<open>\<^verbatim>\<open>d[k] = v\<close> on an insertion-ordered dictionary: an existing key keeps its place.\<close>
  "dict_set k v [] = [(k, v)]"
| "dict_set k v (p # ps) = (if fst p = k then (k, v) # ps else p # dict_set k v ps)"

fun deduplicate_loop :: "(string \<times> result) list \<Rightarrow> result list \<Rightarrow> (string \<times> result) list" where
  "deduplicate_loop seen [] = seen"
| "deduplicate_loop seen (r # rs) =
     (case memory_id r of
        None \<Rightarrow> deduplicate_loop seen rs
      | Some mid \<Rightarrow>
          if mid = [] then deduplicate_loop seen rs
          else (case map_of seen mid of
                  None \<Rightarrow> deduplicate_loop (dict_set mid r seen) rs
                | Some existing \<Rightarrow>
                    if get0 (score r) > get0 (score existing)
                    then deduplicate_loop (dict_set mid (merge_results existing r) seen) rs
                    else deduplicate_loop seen rs))"

definition deduplicate :: "result list \<Rightarrow> result list" where
  "deduplicate results = map snd (deduplicate_loop [] results)"

definition normalize_keyword_score :: "real \<Rightarrow> real" where
  "normalize_keyword_score s = (if s \<le> 0 then 0 else clamp01 (tanh (s * (2 / 10))))"

definition normalize_vector_score :: "real \<Rightarrow> real" where
  "normalize_vector_score s = clamp01 ((s + 1) / 2)"

definition py_exp :: "real \<Rightarrow> real option" where
  \<comment> \<open>\<^verbatim>\<open>math.exp\<close>: raises \<^verbatim>\<open>OverflowError\<close> (here \<open>None\<close>) when the result leaves the
      range of a double, whose largest value is just below \<open>2 ^ 1024\<close>. Rounding is not
      modelled, so the threshold is exact only away from that boundary.\<close>
  "py_exp x = (if exp x \<ge> 2 ^ 1024 then None else Some (exp x))"

definition calculate_recency_score :: "timestamp option \<Rightarrow> real" where
  \<comment> \<open>Every exception inside the \<^verbatim>\<open>try\<close> block ends in the handler's \<^verbatim>\<open>return 0.5\<close>.\<close>
  "calculate_recency_score c =
     (case c of
        None \<Rightarrow> 1 / 2
      | Some BadTimestamp \<Rightarrow> 1 / 2
      | Some (AgeDays age_days) \<Rightarrow>
          (let decay_rate = ln 2 / 30 in
           case py_exp (- decay_rate * real_of_int age_days) of
             None \<Rightarrow> 1 / 2
           | Some s \<Rightarrow> clamp01 s))"

definition calculate_frequency_score :: "int \<Rightarrow> real" where
  "calculate_frequency_score n =
     (if n \<le> 0 then 0
      else clamp01 (ln (1 + real_of_int n) / ln (1 + 1000)))"

record scores =
  sc_keyword_score :: real
  sc_vector_score :: real
  sc_reliability_score :: real
  sc_recency_score :: real
  sc_frequency_score :: real
  sc_score :: real

definition calculate_scores :: "HybridRanker \<Rightarrow> result \<Rightarrow> scores" where
  "calculate_scores self r =
     (let ks = normalize_keyword_score (get0 (keyword_score r));
          vs = normalize_vector_score (get0 (vector_score r));
          rs = (case reliability r of None \<Rightarrow> 1 / 2 | Some x \<Rightarrow> x);
          rc = calculate_recency_score (created_at r);
          fs = calculate_frequency_score (case access_count r of None \<Rightarrow> 0 | Some n \<Rightarrow> n);
          combined_score =
            keyword_weight self * ks + vector_weight self * vs + reliability_weight self * rs
              + recency_weight self * rc + frequency_weight self * fs
      in \<lparr> sc_keyword_score = ks, sc_vector_score = vs, sc_reliability_score = rs,
           sc_recency_score = rc, sc_frequency_score = fs, sc_score = combined_score \<rparr>)"

definition update_scores :: "result \<Rightarrow> scores \<Rightarrow> result" where
  \<comment> \<open>\<^verbatim>\<open>result.update(scores)\<close>\<close>
  "update_scores r s = r \<lparr>
     keyword_score := Some (sc_keyword_score s),
     vector_score := Some (sc_vector_score s),
     reliability_score := Some (sc_reliability_score s),
     recency_score := Some (sc_recency_score s),
     frequency_score := Some (sc_frequency_score s),
     score := Some (sc_score s) \<rparr>"

definition sort_by_score :: "result list \<Rightarrow> result list" where
  \<comment> \<open>\<^verbatim>\<open>list.sort(key=lambda x: x["score"], reverse=True)\<close>: stable, descending.
      Every element carries a score at this point.\<close>
  "sort_by_score rs = sort_key (\<lambda>r. - get0 (score r)) rs"

definition rank :: "HybridRanker \<Rightarrow> result list \<Rightarrow> bool \<Rightarrow> result list" where
  "rank self results dedup =
     (if results = [] then []
      else sort_by_score
             (map (\<lambda>r. update_scores r (calculate_scores self r))
                  (if dedup then deduplicate results else results)))"

subsection \<open>Example inputs of the ranker\<close>

definition empty_result :: result where
  \<comment> \<open>The empty dictionary.\<close>
  "empty_result = \<lparr> memory_id = None, keyword_score = None, vector_score = None,
     reliability_score = None, recency_score = None, frequency_score = None, score = None,
     match_type = None, reliability = None, created_at = None, access_count = None \<rparr>"

definition default_ranker :: HybridRanker where
  \<comment> \<open>\<^verbatim>\<open>HybridRanker()\<close> under the default settings.\<close>
  "default_ranker = HybridRanker_init default_settings None None None None None"

definition scenario_b_keyword :: result where
  \<comment> \<open>The keyword strategy's result of scenario B; the strategies also store their raw
      score under \<^verbatim>\<open>"score"\<close> (\<^verbatim>\<open>keyword_search.py\<close>, \<^verbatim>\<open>vector_search.py\<close>).\<close>
  "scenario_b_keyword = empty_result \<lparr> memory_id := Some ''m1'', keyword_score := Some (2 / 10),
     vector_score := Some 0, score := Some (2 / 10), match_type := Some ''keyword'' \<rparr>"




section \<open>TokenCounter: \<^verbatim>\<open>src/utils/token_counter.py\<close>\<close>

text \<open>
  The tokenizer (\<^verbatim>\<open>tiktoken\<close>) is outside the repository. A counter either has an
  encoder or not; an encoder maps a text to its number of tokens, or raises (\<open>None\<close>),
  and then \<open>count\<close> falls back on the estimate of four characters per token.
\<close>

type_synonym encoder = "string \<Rightarrow> nat option"

record TokenCounter =
  encoder :: "encoder option"

definition count_tokens :: "TokenCounter \<Rightarrow> string \<Rightarrow> nat" where
  \<comment> \<open>\<^verbatim>\<open>TokenCounter.count\<close>\<close>
  "count_tokens tc text =
     (if text = [] then 0
      else (case encoder tc of
              None \<Rightarrow> length text div 4
            | Some enc \<Rightarrow> (case enc text of Some n \<Rightarrow> n | None \<Rightarrow> length text div 4)))"

section \<open>ContextBuilder: \<^verbatim>\<open>src/core/context_builder.py\<close>\<close>

subsection \<open>Strings\<close>

definition is_space :: "char \<Rightarrow> bool" where
  \<comment> \<open>The ASCII characters for which \<^verbatim>\<open>str.isspace\<close> holds: tab, line feed, vertical tab,
      form feed, carriage return, the separators 28 to 31, and the space.\<close>
  "is_space c = (let n = (of_char c :: nat) in (9 \<le> n \<and> n \<le> 13) \<or> (28 \<le> n \<and> n \<le> 32))"

fun words_of :: "string \<Rightarrow> string \<Rightarrow> string list" where
  \<comment> \<open>The first argument is the word being read.\<close>
  "words_of cur [] = (if cur = [] then [] else [cur])"
| "words_of cur (c # cs) =
     (if is_space c then (if cur = [] then words_of [] cs else cur # words_of [] cs)
      else words_of (cur @ [c]) cs)"

definition split_ws :: "string \<Rightarrow> string list" where
  \<comment> \<open>\<^verbatim>\<open>text.split()\<close>\<close>
  "split_ws text = words_of [] text"

subsection \<open>Memories: the ranked results read by the builder, and the objects it packs\<close>

text \<open>
  The builder reads each ranked result through \<^verbatim>\<open>.get\<close>; the record \<open>memory\<close> holds the
  keys it reads. The packed objects are the pydantic models of
  \<^verbatim>\<open>src/models/memory.py\<close>, whose constructors validate their arguments: \<open>id\<close> and
  \<open>conversation_id\<close> must be UUIDs and \<open>reliability\<close> must lie in \<open>[0, 1]\<close>. Whether a string
  parses as a UUID is decided outside the repository, so an identifier is given with the
  outcome of that parse.
\<close>

datatype error = ValidationError | KeyError

datatype id_value = Uuid string | NotUuid string

record memory =
  m_memory_id :: "id_value option"
  m_user_id :: "string option"
  m_memory_type :: "string option"
  m_content :: "string option"
  m_keywords :: "string list option"
  m_reliability :: "real option"
  m_category :: "string option"
  m_attribute :: "string option"
  m_value :: "string option"
  m_topic :: "string option"
  m_fact :: "string option"
  m_conversation_id :: "id_value option"
  m_event_type :: "string option"
  m_summary :: "string option"
  m_procedure_name :: "string option"
  m_trigger :: "string option"
  m_steps :: "string list option"

record Memory =
  mem_id :: string
  mem_user_id :: string
  mem_content :: string
  mem_keywords :: "string list"
  mem_reliability :: real

record ProfileMemory = Memory +
  category :: string
  attribute :: string
  attr_value :: string

record SemanticMemory = Memory +
  topic :: string
  fact :: string

datatype conversation_ref = Given string | Fresh
  \<comment> \<open>\<open>Fresh\<close> is the value of \<^verbatim>\<open>uuid4()\<close>\<close>

record EpisodicMemory = Memory +
  conversation_id :: conversation_ref
  event_type :: string
  summary :: string

record ProceduralMemory = Memory +
  procedure_name :: string
  trigger :: string
  steps :: "string list"

definition get_or :: "'a option \<Rightarrow> 'a \<Rightarrow> 'a" where
  \<comment> \<open>\<^verbatim>\<open>d.get(key, default)\<close>\<close>
  "get_or v d = (case v of None \<Rightarrow> d | Some x \<Rightarrow> x)"

definition validate_id :: "id_value option \<Rightarrow> error + string" where
  \<comment> \<open>The field \<^verbatim>\<open>id: UUID\<close> given \<^verbatim>\<open>mem.get("memory_id")\<close>.\<close>
  "validate_id v = (case v of Some (Uuid u) \<Rightarrow> Inr u | _ \<Rightarrow> Inl ValidationError)"

definition validate_reliability :: "real \<Rightarrow> error + real" where
  \<comment> \<open>The field \<^verbatim>\<open>reliability: float = Field(ge=0.0, le=1.0)\<close>.\<close>
  "validate_reliability r = (if 0 \<le> r \<and> r \<le> 1 then Inr r else Inl ValidationError)"

definition validate_conversation_id :: "id_value option \<Rightarrow> error + conversation_ref" where
  \<comment> \<open>\<^verbatim>\<open>mem.get("conversation_id") or uuid4()\<close>, then the field \<^verbatim>\<open>conversation_id: UUID\<close>.\<close>
  "validate_conversation_id v =
     (case v of
        None \<Rightarrow> Inr Fresh
      | Some (Uuid u) \<Rightarrow> Inr (Given u)
      | Some (NotUuid s) \<Rightarrow> if s = [] then Inr Fresh else Inl ValidationError)"

definition content_of :: "memory \<Rightarrow> string" where
  \<comment> \<open>\<^verbatim>\<open>mem.get("content", "")\<close>\<close>
  "content_of mem = get_or (m_content mem) []"

definition make_profile_memory :: "memory \<Rightarrow> error + ProfileMemory" where
  "make_profile_memory mem =
     (let content = content_of mem in
      case validate_id (m_memory_id mem) of Inl e \<Rightarrow> Inl e | Inr i \<Rightarrow>
      case validate_reliability (get_or (m_reliability mem) (1 / 2)) of Inl e \<Rightarrow> Inl e | Inr r \<Rightarrow>
        Inr \<lparr> mem_id = i, mem_user_id = get_or (m_user_id mem) [], mem_content = content,
              mem_keywords = get_or (m_keywords mem) [], mem_reliability = r,
              category = get_or (m_category mem) ''general'',
              attribute = get_or (m_attribute mem) ''info'',
              attr_value = get_or (m_value mem) content \<rparr>)"

definition make_semantic_memory :: "memory \<Rightarrow> error + SemanticMemory" where
  "make_semantic_memory mem =
     (let content = content_of mem in
      case validate_id (m_memory_id mem) of Inl e \<Rightarrow> Inl e | Inr i \<Rightarrow>
      case validate_reliability (get_or (m_reliability mem) (1 / 2)) of Inl e \<Rightarrow> Inl e | Inr r \<Rightarrow>
        Inr \<lparr> mem_id = i, mem_user_id = get_or (m_user_id mem) [], mem_content = content,
              mem_keywords = get_or (m_keywords mem) [], mem_reliability = r,
              topic = get_or (m_topic mem) ''general'',
              fact = get_or (m_fact mem) content \<rparr>)"

definition make_episodic_memory :: "memory \<Rightarrow> error + EpisodicMemory" where
  "make_episodic_memory mem =
     (let content = content_of mem in
      case validate_id (m_memory_id mem) of Inl e \<Rightarrow> Inl e | Inr i \<Rightarrow>
      case validate_conversation_id (m_conversation_id mem) of Inl e \<Rightarrow> Inl e | Inr c \<Rightarrow>
      case validate_reliability (get_or (m_reliability mem) (1 / 2)) of Inl e \<Rightarrow> Inl e | Inr r \<Rightarrow>
        Inr \<lparr> mem_id = i, mem_user_id = get_or (m_user_id mem) [], mem_content = content,
              mem_keywords = get_or (m_keywords mem) [], mem_reliability = r,
              conversation_id = c,
              event_type = get_or (m_event_type mem) ''conversation'',
              summary = get_or (m_summary mem) (take 200 content) \<rparr>)"

definition make_procedural_memory :: "memory \<Rightarrow> error + ProceduralMemory" where
  "make_procedural_memory mem =
     (let content = content_of mem in
      case validate_id (m_memory_id mem) of Inl e \<Rightarrow> Inl e | Inr i \<Rightarrow>
      case validate_reliability (get_or (m_reliability mem) (1 / 2)) of Inl e \<Rightarrow> Inl e | Inr r \<Rightarrow>
        Inr \<lparr> mem_id = i, mem_user_id = get_or (m_user_id mem) [], mem_content = content,
              mem_keywords = get_or (m_keywords mem) [], mem_reliability = r,
              procedure_name = get_or (m_procedure_name mem) ''unnamed'',
              trigger = get_or (m_trigger mem) ''user request'',
              steps = get_or (m_steps mem) [content] \<rparr>)"

record MemoryContext =
  profile_memories :: "ProfileMemory list"
  semantic_memories :: "SemanticMemory list"
  episodic_memories :: "EpisodicMemory list"
  procedural_memories :: "ProceduralMemory list"
  entity_context :: "string option"
  total_tokens :: int
  truncated :: bool

subsection \<open>The builder\<close>

record ContextBuilder =
  max_tokens :: int
  profile_tokens :: int
  semantic_tokens :: int
  episodic_tokens :: int
  procedural_tokens :: int
  entity_tokens :: int
  history_tokens :: int
  token_counter :: TokenCounter

definition ContextBuilder_init ::
  "settings \<Rightarrow> TokenCounter \<Rightarrow> int option \<Rightarrow> int option \<Rightarrow> int option \<Rightarrow> int option
     \<Rightarrow> int option \<Rightarrow> int option \<Rightarrow> int option \<Rightarrow> ContextBuilder" where
  "ContextBuilder_init st tc mt pt smt ept prt ent ht = \<lparr>
     max_tokens = or_default_int mt (max_context_tokens st),
     profile_tokens = or_default_int pt (profile_memory_tokens st),
     semantic_tokens = or_default_int smt (semantic_memory_tokens st),
     episodic_tokens = or_default_int ept (episodic_memory_tokens st),
     procedural_tokens = or_default_int prt (procedural_memory_tokens st),
     entity_tokens = or_default_int ent (entity_memory_tokens st),
     history_tokens = or_default_int ht (conversation_history_tokens st),
     token_counter = tc \<rparr>"

fun dict_append :: "string \<Rightarrow> 'v \<Rightarrow> (string \<times> 'v list) list \<Rightarrow> (string \<times> 'v list) list" where
  \<comment> \<open>\<^verbatim>\<open>d[k].append(v)\<close> for a key of the dictionary\<close>
  "dict_append k v [] = []"
| "dict_append k v (p # ps) =
     (if fst p = k then (k, snd p @ [v]) # ps else p # dict_append k v ps)"

definition categorize_memories :: "memory list \<Rightarrow> (string \<times> memory list) list" where
  "categorize_memories memories =
     foldl (\<lambda>categorized mem.
              let memory_type = get_or (m_memory_type mem) ''semantic'' in
              if memory_type \<in> set (map fst categorized)
              then dict_append memory_type mem categorized else categorized)
           [(''profile'', []), (''semantic'', []), (''episodic'', []), (''procedural'', [])]
           memories"

definition bucket :: "(string \<times> memory list) list \<Rightarrow> string \<Rightarrow> memory list" where
  \<comment> \<open>\<^verbatim>\<open>categorized.get(key, [])\<close>\<close>
  "bucket categorized key = get_or (map_of categorized key) []"

text \<open>
  The four section builders are the same loop around four constructors; \<open>pack_loop\<close> is
  that loop, with \<open>result\<close> and \<open>current_tokens\<close> as the source names them. The loop ends at
  the \<^verbatim>\<open>break\<close> or at the end of the list; an exception of the constructor leaves it.
\<close>

fun pack_loop ::
  "(memory \<Rightarrow> error + 'a) \<Rightarrow> TokenCounter \<Rightarrow> int \<Rightarrow> 'a list \<Rightarrow> nat \<Rightarrow> memory list
     \<Rightarrow> error + 'a list" where
  "pack_loop mk tc token_budget result current_tokens [] = Inr result"
| "pack_loop mk tc token_budget result current_tokens (mem # mems) =
     (let tokens = count_tokens tc (content_of mem) in
      if int current_tokens + int tokens > token_budget then Inr result
      else (case mk mem of
              Inl e \<Rightarrow> Inl e
            | Inr obj \<Rightarrow>
                pack_loop mk tc token_budget (result @ [obj]) (current_tokens + tokens) mems))"

definition build_profile_section ::
  "TokenCounter \<Rightarrow> memory list \<Rightarrow> int \<Rightarrow> error + ProfileMemory list" where
  "build_profile_section tc memories token_budget =
     pack_loop make_profile_memory tc token_budget [] 0 memories"

definition build_semantic_section ::
  "TokenCounter \<Rightarrow> memory list \<Rightarrow> int \<Rightarrow> error + SemanticMemory list" where
  "build_semantic_section tc memories token_budget =
     pack_loop make_semantic_memory tc token_budget [] 0 memories"

definition build_episodic_section ::
  "TokenCounter \<Rightarrow> memory list \<Rightarrow> int \<Rightarrow> error + EpisodicMemory list" where
  "build_episodic_section tc memories token_budget =
     pack_loop make_episodic_memory tc token_budget [] 0 memories"

definition build_procedural_section ::
  "TokenCounter \<Rightarrow> memory list \<Rightarrow> int \<Rightarrow> error + ProceduralMemory list" where
  "build_procedural_section tc memories token_budget =
     pack_loop make_procedural_memory tc token_budget [] 0 memories"

function truncate_search :: "TokenCounter \<Rightarrow> string list \<Rightarrow> int \<Rightarrow> nat \<Rightarrow> nat \<Rightarrow> nat" where
  \<comment> \<open>The \<^verbatim>\<open>while low < high\<close> loop of \<^verbatim>\<open>_truncate_to_tokens\<close>; the value is the final
      \<open>low\<close>.\<close>
  "truncate_search tc words limit low high =
     (if low < high then
        (if int (count_tokens tc (join '' '' (take ((low + high + 1) div 2) words))) \<le> limit
         then truncate_search tc words limit ((low + high + 1) div 2) high
         else truncate_search tc words limit low ((low + high + 1) div 2 - 1))
      else low)"
  by pat_completeness auto
termination
  by (relation "measure (\<lambda>(tc, words, limit, low, high). high - low)") auto

definition truncate_to_tokens :: "TokenCounter \<Rightarrow> string \<Rightarrow> int \<Rightarrow> string" where
  "truncate_to_tokens tc text limit =
     (if text = [] then []
      else if int (count_tokens tc text) \<le> limit then text
      else (let words = split_ws text;
                low = truncate_search tc words limit 0 (length words)
            in join '' '' (take low words) @ ''...''))"

definition truncate_entity :: "TokenCounter \<Rightarrow> string option \<Rightarrow> int \<Rightarrow> string option" where
  \<comment> \<open>\<^verbatim>\<open>if entity_context: entity_context = self._truncate_to_tokens(entity_context, limit)\<close>\<close>
  "truncate_entity tc entity limit =
     (case entity of
        None \<Rightarrow> None
      | Some text \<Rightarrow> if text = [] then Some text else Some (truncate_to_tokens tc text limit))"

definition calculate_total_tokens ::
  "TokenCounter \<Rightarrow> ProfileMemory list \<Rightarrow> SemanticMemory list \<Rightarrow> EpisodicMemory list
     \<Rightarrow> ProceduralMemory list \<Rightarrow> string option \<Rightarrow> int" where
  \<comment> \<open>\<^verbatim>\<open>mem.content\<close> is read as the stored field of the object. \<^verbatim>\<open>ProfileMemory\<close> also
      declares a property of that name; the examples below use no profile memory where
      the total is evaluated.\<close>
  "calculate_total_tokens tc ps ss es prs entity =
     int (sum_list (map (\<lambda>m. count_tokens tc (mem_content m)) ps)
        + sum_list (map (\<lambda>m. count_tokens tc (mem_content m)) ss)
        + sum_list (map (\<lambda>m. count_tokens tc (mem_content m)) es)
        + sum_list (map (\<lambda>m. count_tokens tc (mem_content m)) prs)
        + (case entity of None \<Rightarrow> 0 | Some text \<Rightarrow> count_tokens tc text))"

definition build ::
  "ContextBuilder \<Rightarrow> memory list \<Rightarrow> int option \<Rightarrow> string option \<Rightarrow> error + MemoryContext" where
  \<comment> \<open>\<^verbatim>\<open>ContextBuilder.build\<close>\<close>
  "build self memories max_tokens_arg entity_arg =
     (let limit = or_default_int max_tokens_arg (max_tokens self);
          tc = token_counter self;
          categorized = categorize_memories memories in
      case build_profile_section tc (bucket categorized ''profile'') (profile_tokens self) of
        Inl e \<Rightarrow> Inl e | Inr ps \<Rightarrow>
      case build_semantic_section tc (bucket categorized ''semantic'') (semantic_tokens self) of
        Inl e \<Rightarrow> Inl e | Inr ss \<Rightarrow>
      case build_episodic_section tc (bucket categorized ''episodic'') (episodic_tokens self) of
        Inl e \<Rightarrow> Inl e | Inr es \<Rightarrow>
      case build_procedural_section tc (bucket categorized ''procedural'')
             (procedural_tokens self) of
        Inl e \<Rightarrow> Inl e | Inr prs \<Rightarrow>
        (let entity = truncate_entity tc entity_arg (entity_tokens self);
             total = calculate_total_tokens tc ps ss es prs entity;
             is_truncated = (total > limit)
         in Inr \<lparr> profile_memories = ps, semantic_memories = ss, episodic_memories = es,
                  procedural_memories = prs, entity_context = entity,
                  total_tokens = min total limit, truncated = is_truncated \<rparr>))"

subsection \<open>AdaptiveContextBuilder\<close>

definition base_budgets :: "ContextBuilder \<Rightarrow> (string \<times> int) list" where
  "base_budgets self =
     [(''profile'', profile_tokens self), (''semantic'', semantic_tokens self),
      (''episodic'', episodic_tokens self), (''procedural'', procedural_tokens self),
      (''entity'', entity_tokens self)]"

definition scan_budget ::
  "(string \<times> int) list \<Rightarrow> int \<times> string list \<Rightarrow> string \<times> int \<Rightarrow> int \<times> string list" where
  \<comment> \<open>One round of the loop over \<^verbatim>\<open>base_budgets.items()\<close>, on \<open>(unused, need_more)\<close>.\<close>
  "scan_budget category_sizes acc item =
     (case acc of (unused, need_more) \<Rightarrow>
      case item of (cat, base) \<Rightarrow>
      case map_of category_sizes cat of
        None \<Rightarrow> (unused, need_more)
      | Some sz \<Rightarrow>
          if sz < base then (unused + (base - sz), need_more)
          else if sz > base then (unused, need_more @ [cat])
          else (unused, need_more))"

fun dict_add :: "string \<Rightarrow> int \<Rightarrow> (string \<times> int) list \<Rightarrow> (string \<times> int) list" where
  \<comment> \<open>\<^verbatim>\<open>d[k] += x\<close> for a key of the dictionary\<close>
  "dict_add k x [] = []"
| "dict_add k x (p # ps) = (if fst p = k then (k, snd p + x) # ps else p # dict_add k x ps)"

definition reallocate_budgets ::
  "ContextBuilder \<Rightarrow> (string \<times> int) list \<Rightarrow> int \<Rightarrow> (string \<times> int) list" where
  "reallocate_budgets self category_sizes limit =
     (case foldl (scan_budget category_sizes) (0, []) (base_budgets self) of
        (unused, need_more) \<Rightarrow>
          if unused > 0 \<and> need_more \<noteq> []
          then (let extra_each = unused div int (length need_more)
                in foldl (\<lambda>budgets cat. dict_add cat extra_each budgets)
                     (base_budgets self) need_more)
          else base_budgets self)"

definition category_sizes_of ::
  "TokenCounter \<Rightarrow> (string \<times> memory list) list \<Rightarrow> (string \<times> int) list" where
  \<comment> \<open>The loop that fills \<^verbatim>\<open>category_sizes\<close>.\<close>
  "category_sizes_of tc categorized =
     map (\<lambda>(cat, mems). (cat, int (sum_list (map (\<lambda>m. count_tokens tc (content_of m)) mems))))
       categorized"

definition budget_of :: "(string \<times> int) list \<Rightarrow> string \<Rightarrow> error + int" where
  \<comment> \<open>\<^verbatim>\<open>budgets[key]\<close>\<close>
  "budget_of budgets key = (case map_of budgets key of None \<Rightarrow> Inl KeyError | Some b \<Rightarrow> Inr b)"

definition adaptive_build ::
  "ContextBuilder \<Rightarrow> memory list \<Rightarrow> int option \<Rightarrow> string option \<Rightarrow> error + MemoryContext" where
  \<comment> \<open>\<^verbatim>\<open>AdaptiveContextBuilder.build\<close>\<close>
  "adaptive_build self memories max_tokens_arg entity_arg =
     (let limit = or_default_int max_tokens_arg (max_tokens self);
          tc = token_counter self;
          categorized = categorize_memories memories;
          budgets = reallocate_budgets self (category_sizes_of tc categorized) limit in
      case budget_of budgets ''profile'' of Inl e \<Rightarrow> Inl e | Inr pb \<Rightarrow>
      case build_profile_section tc (bucket categorized ''profile'') pb of
        Inl e \<Rightarrow> Inl e | Inr ps \<Rightarrow>
      case budget_of budgets ''semantic'' of Inl e \<Rightarrow> Inl e | Inr sb \<Rightarrow>
      case build_semantic_section tc (bucket categorized ''semantic'') sb of
        Inl e \<Rightarrow> Inl e | Inr ss \<Rightarrow>
      case budget_of budgets ''episodic'' of Inl e \<Rightarrow> Inl e | Inr eb \<Rightarrow>
      case build_episodic_section tc (bucket categorized ''episodic'') eb of
        Inl e \<Rightarrow> Inl e | Inr es \<Rightarrow>
      case budget_of budgets ''procedural'' of Inl e \<Rightarrow> Inl e | Inr prb \<Rightarrow>
      case build_procedural_section tc (bucket categorized ''procedural'') prb of
        Inl e \<Rightarrow> Inl e | Inr prs \<Rightarrow>
        (let entity = truncate_entity tc entity_arg
                        (get_or (map_of budgets ''entity'') (entity_tokens self));
             total = calculate_total_tokens tc ps ss es prs entity
         in Inr \<lparr> profile_memories = ps, semantic_memories = ss, episodic_memories = es,
                  procedural_memories = prs, entity_context = entity,
                  total_tokens = total, truncated = (total > limit) \<rparr>))"

subsection \<open>Example inputs of the builder\<close>

definition estimating_counter :: TokenCounter where
  \<comment> \<open>A counter without tokenizer: four characters per token.\<close>
  "estimating_counter = \<lparr> encoder = None \<rparr>"

definition default_builder :: ContextBuilder where
  "default_builder =
     ContextBuilder_init default_settings estimating_counter None None None None None None None"

definition empty_memory :: memory where
  "empty_memory = \<lparr> m_memory_id = None, m_user_id = None, m_memory_type = None,
     m_content = None, m_keywords = None, m_reliability = None, m_category = None,
     m_attribute = None, m_value = None, m_topic = None, m_fact = None,
     m_conversation_id = None, m_event_type = None, m_summary = None,
     m_procedure_name = None, m_trigger = None, m_steps = None \<rparr>"


definition semantic_of_size :: "nat \<Rightarrow> memory" where
  \<comment> \<open>A semantic memory whose content has the given number of characters.\<close>
  "semantic_of_size n = empty_memory \<lparr>
     m_memory_id := Some (Uuid ''00000000-0000-4000-8000-000000000002''),
     m_memory_type := Some ''semantic'', m_content := Some (replicate n (CHR ''a'')) \<rparr>"

subsection \<open>The packing policy and the reallocation rule in the specification's words\<close>



definition surplus_pool :: "(string \<times> int) list \<Rightarrow> (string \<times> int) list \<Rightarrow> int" where
  \<comment> \<open>The pooled surplus, base budget minus demand, of the categories whose demand is
      below their base budget.\<close>
  "surplus_pool base demand =
     sum_list (map (\<lambda>(cat, b). case map_of demand cat of
                                  None \<Rightarrow> 0
                                | Some d \<Rightarrow> if d < b then b - d else 0) base)"

definition over_budget :: "(string \<times> int) list \<Rightarrow> (string \<times> int) list \<Rightarrow> string list" where
  \<comment> \<open>The categories whose demand exceeds their base budget.\<close>
  "over_budget base demand =
     map fst (filter (\<lambda>(cat, b). case map_of demand cat of
                                    None \<Rightarrow> False
                                  | Some d \<Rightarrow> d > b) base)"

definition totals_of :: "error + MemoryContext \<Rightarrow> (int \<times> bool) option" where
  \<comment> \<open>\<open>total_tokens\<close> and \<open>truncated\<close> of a returned context; \<open>None\<close> when the call raised.\<close>
  "totals_of r = (case r of Inl e \<Rightarrow> None | Inr c \<Rightarrow> Some (total_tokens c, truncated c))"

section \<open>QueryAnalyzer: \<^verbatim>\<open>src/core/query_analyzer.py\<close>\<close>

text \<open>
  Queries are strings of ASCII characters: a character above 127 is taken as it is by
  \<open>lower\<close> and is neither a word character, a digit nor whitespace.
\<close>

subsection \<open>Characters and strings\<close>

definition is_word_char :: "char \<Rightarrow> bool" where
  \<comment> \<open>\<^verbatim>\<open>\w\<close>: a letter, a digit or the underscore\<close>
  "is_word_char c =
     (let n = (of_char c :: nat)
      in (48 \<le> n \<and> n \<le> 57) \<or> (65 \<le> n \<and> n \<le> 90) \<or> n = 95 \<or> (97 \<le> n \<and> n \<le> 122))"

definition is_digit :: "char \<Rightarrow> bool" where
  \<comment> \<open>\<^verbatim>\<open>\d\<close>\<close>
  "is_digit c = (let n = (of_char c :: nat) in 48 \<le> n \<and> n \<le> 57)"

definition lower_char :: "char \<Rightarrow> char" where
  "lower_char c =
     (let n = (of_char c :: nat) in if 65 \<le> n \<and> n \<le> 90 then char_of (n + 32) else c)"

definition lower :: "string \<Rightarrow> string" where
  \<comment> \<open>\<^verbatim>\<open>str.lower\<close>\<close>
  "lower s = map lower_char s"

definition strip :: "string \<Rightarrow> string" where
  \<comment> \<open>\<^verbatim>\<open>str.strip\<close>\<close>
  "strip s = rev (dropWhile is_space (rev (dropWhile is_space s)))"

definition is_substring :: "string \<Rightarrow> string \<Rightarrow> bool" where
  \<comment> \<open>\<^verbatim>\<open>h in q\<close> on strings\<close>
  "is_substring h q = list_ex (\<lambda>i. take (length h) (drop i q) = h) [0..<Suc (length q)]"

subsection \<open>Regular expressions\<close>

text \<open>
  Every pattern of the analyzer that the model uses is a sequence of items of five
  kinds: a group of alternative literal strings, a repetition of a character class, the
  word boundary \<^verbatim>\<open>\b\<close>, and the anchors \<^verbatim>\<open>^\<close> and \<^verbatim>\<open>$\<close>. An item matched at a position
  of the subject yields the positions where the match can end, in the order in which a
  backtracking matcher tries them. \<^verbatim>\<open>re.search\<close> asks for a start position with a match;
  literals are compared without regard to case (\<^verbatim>\<open>re.IGNORECASE\<close>).
\<close>

datatype char_class = Digit | Space | OneOf string

datatype item =
    Words "string list"
  | Chars char_class nat "nat option"
  | WordBoundary
  | Bos
  | Eos

type_synonym pattern = "item list"

fun in_class :: "char_class \<Rightarrow> char \<Rightarrow> bool" where
  "in_class Digit c = is_digit c"
| "in_class Space c = is_space c"
| "in_class (OneOf cs) c = (c \<in> set cs)"

definition at_boundary :: "string \<Rightarrow> nat \<Rightarrow> bool" where
  "at_boundary s i =
     ((0 < i \<and> i \<le> length s \<and> is_word_char (s ! (i - 1)))
        \<noteq> (i < length s \<and> is_word_char (s ! i)))"

fun match_item :: "item \<Rightarrow> string \<Rightarrow> nat \<Rightarrow> nat list" where
  "match_item (Words ws) s i =
     concat (map (\<lambda>w. if lower (take (length w) (drop i s)) = lower w \<and> i + length w \<le> length s
                       then [i + length w] else []) ws)"
| "match_item (Chars cc lo hi) s i =
     (let run = length (takeWhile (in_class cc) (drop i s));
          most = (case hi of None \<Rightarrow> run | Some h \<Rightarrow> min h run)
      in map (\<lambda>k. i + k) (rev [lo..<Suc most]))"
| "match_item WordBoundary s i = (if at_boundary s i then [i] else [])"
| "match_item Bos s i = (if i = 0 then [i] else [])"
| "match_item Eos s i =
     (if i = length s \<or> (Suc i = length s \<and> s ! i = CHR 0x0A) then [i] else [])"

fun match_seq :: "pattern \<Rightarrow> string \<Rightarrow> nat \<Rightarrow> nat list" where
  "match_seq [] s i = [i]"
| "match_seq (a # as) s i = concat (map (match_seq as s) (match_item a s i))"

definition search :: "pattern \<Rightarrow> string \<Rightarrow> bool" where
  \<comment> \<open>\<^verbatim>\<open>re.search(pattern, s, re.IGNORECASE)\<close> as a truth value\<close>
  "search p s = list_ex (\<lambda>i. match_seq p s i \<noteq> []) [0..<Suc (length s)]"

fun word_runs :: "string \<Rightarrow> string \<Rightarrow> string list" where
  \<comment> \<open>The maximal runs of word characters; the first argument is the run being read.\<close>
  "word_runs cur [] = (if cur = [] then [] else [cur])"
| "word_runs cur (c # cs) =
     (if is_word_char c then word_runs (cur @ [c]) cs
      else (if cur = [] then word_runs [] cs else cur # word_runs [] cs))"

definition findall_words :: "string \<Rightarrow> string list" where
  \<comment> \<open>\<^verbatim>\<open>re.findall(r'\b\w+\b', s)\<close>: the matches are the maximal runs of word characters.\<close>
  "findall_words s = word_runs [] s"

subsection \<open>The patterns of \<^verbatim>\<open>QueryAnalyzer.__init__\<close>\<close>

definition recall_patterns :: "pattern list" where
  "recall_patterns =
     [[WordBoundary,
       Words [''remember'', ''recall'', ''told'', ''said'', ''mentioned'', ''discussed'',
              ''talked about''],
       WordBoundary],
      [WordBoundary,
       Words [''last time'', ''before'', ''previously'', ''earlier'', ''when did''],
       WordBoundary],
      [WordBoundary, Words [''what was'', ''what were'', ''what did''], WordBoundary],
      [WordBoundary, Words [''my'', ''our''], Words ['' ''],
       Words [''favorite'', ''preference'', ''choice''], WordBoundary]]"

definition question_patterns :: "pattern list" where
  "question_patterns =
     [[Bos,
       Words [''what'', ''who'', ''where'', ''when'', ''why'', ''how'', ''which'', ''can'',
              ''could'', ''would'', ''should'', ''is'', ''are'', ''do'', ''does''],
       WordBoundary],
      [Words [''?''], Eos],
      [WordBoundary, Words [''explain'', ''describe'', ''tell me about'', ''define''],
       WordBoundary]]"

definition command_patterns :: "pattern list" where
  "command_patterns =
     [[Bos,
       Words [''create'', ''make'', ''build'', ''write'', ''generate'', ''add'', ''update'',
              ''delete'', ''remove''],
       WordBoundary],
      [Bos,
       Words [''set'', ''configure'', ''change'', ''modify'', ''fix'', ''solve'', ''help''],
       WordBoundary],
      [Bos, Words [''please'', ''can you'', ''could you'', ''would you''],
       Chars Space 1 None, Words [''create'', ''make'', ''write'', ''help''], WordBoundary]]"

definition time_patterns :: "(pattern \<times> string) list" where
  "time_patterns =
     [([WordBoundary, Words [''today'', ''now'', ''currently''], WordBoundary], ''present''),
      ([WordBoundary, Words [''yesterday'', ''last night''], WordBoundary], ''recent''),
      ([WordBoundary, Words [''last week'', ''past week''], WordBoundary], ''week''),
      ([WordBoundary, Words [''last month'', ''past month''], WordBoundary], ''month''),
      ([WordBoundary, Words [''last year'', ''past year''], WordBoundary], ''year''),
      ([WordBoundary, Chars Digit 1 (Some 2), Chars (OneOf ''/-'') 1 (Some 1),
        Chars Digit 1 (Some 2), Chars (OneOf ''/-'') 1 (Some 1), Chars Digit 2 (Some 4),
        WordBoundary], ''specific_date''),
      ([WordBoundary,
        Words [''january'', ''february'', ''march'', ''april'', ''may'', ''june'', ''july'',
               ''august'', ''september'', ''october'', ''november'', ''december''],
        WordBoundary], ''month_name'')]"

definition stopwords :: "string list" where
  "stopwords =
     [''a'', ''an'', ''and'', ''are'', ''as'', ''at'', ''be'', ''by'', ''for'', ''from'',
      ''has'', ''he'', ''in'', ''is'', ''it'', ''its'', ''of'', ''on'', ''that'', ''the'',
      ''to'', ''was'', ''were'', ''will'', ''with'', ''this'', ''they'', ''their'',
      ''what'', ''when'', ''where'', ''which'', ''while'', ''who'', ''whom'', ''why'',
      ''would'', ''could'', ''should'', ''have'', ''has'', ''had'', ''been'', ''being'',
      ''can'', ''do'', ''does'', ''did'', ''done'', ''i'', ''me'', ''my'', ''myself'',
      ''we'', ''our'', ''ours'', ''you'', ''your'', ''yours'', ''he'', ''him'', ''his'',
      ''she'', ''her'', ''hers'', ''it'', ''its'', ''them'', ''theirs'', ''please'',
      ''thanks'', ''thank'', ''hello'', ''hi'', ''hey'']"

subsection \<open>The analysis\<close>

text \<open>
  The record holds the fields of \<^verbatim>\<open>QueryAnalysis\<close> that the properties below read
  (\<open>query_keywords\<close> is its field \<^verbatim>\<open>keywords\<close>);
  \<open>topics\<close> and \<open>entities_mentioned\<close> come from separate scans of the query
  (\<^verbatim>\<open>re.findall\<close>, which does not raise) and feed no other field. No operation of
  \<^verbatim>\<open>analyze\<close> raises on a string, so the model is a total function.
\<close>

record QueryAnalysis =
  original_query :: string
  intent :: string
  query_keywords :: "string list"
  time_reference :: "string option"
  requires_memory :: bool
  memory_types_needed :: "string list"
  confidence :: real

fun any_match :: "pattern list \<Rightarrow> string \<Rightarrow> bool" where
  \<comment> \<open>\<^verbatim>\<open>for pattern in patterns: if re.search(pattern, query, re.IGNORECASE): return ...\<close>\<close>
  "any_match [] q = False"
| "any_match (p # ps) q = (if search p q then True else any_match ps q)"

definition detect_intent :: "string \<Rightarrow> string" where
  "detect_intent q =
     (if any_match recall_patterns q then ''recall''
      else if any_match command_patterns q then ''command''
      else if any_match question_patterns q then ''question''
      else ''conversation'')"

fun dedupe :: "string list \<Rightarrow> string list \<Rightarrow> string list" where
  \<comment> \<open>The loop over \<^verbatim>\<open>keywords\<close> with the set \<^verbatim>\<open>seen\<close>.\<close>
  "dedupe seen [] = []"
| "dedupe seen (k # ks) =
     (if k \<in> set seen then dedupe seen ks else k # dedupe (k # seen) ks)"

definition extract_keywords :: "string \<Rightarrow> string list" where
  "extract_keywords query =
     (let words = findall_words (lower query);
          kws = filter (\<lambda>w. w \<notin> set stopwords \<and> length w > 2) words
      in take 15 (dedupe [] kws))"

fun detect_time_reference_loop :: "(pattern \<times> string) list \<Rightarrow> string \<Rightarrow> string option" where
  "detect_time_reference_loop [] q = None"
| "detect_time_reference_loop ((p, time_type) # ps) q =
     (if search p q then Some time_type else detect_time_reference_loop ps q)"

definition detect_time_reference :: "string \<Rightarrow> string option" where
  "detect_time_reference q = detect_time_reference_loop time_patterns q"

definition decide_requires_memory :: "string \<Rightarrow> string \<Rightarrow> bool" where
  \<comment> \<open>\<^verbatim>\<open>_requires_memory\<close>\<close>
  "decide_requires_memory i q =
     (if i = ''recall'' then True
      else if i = ''command''
        then list_ex (\<lambda>h. is_substring h q) [''my'', ''prefer'', ''usual'', ''always'', ''like'']
      else if i = ''question''
        then list_ex (\<lambda>h. h \<in> set (split_ws q)) [''my'', ''i'', ''me'', ''we'', ''our'']
      else True)"

definition determine_memory_types :: "string \<Rightarrow> string \<Rightarrow> string list" where
  "determine_memory_types i q =
     (if i = ''recall'' then [''profile'', ''semantic'', ''episodic'', ''procedural'']
      else if i = ''question''
        then [''semantic'', ''profile'']
             @ (if is_substring ''how'' q \<or> is_substring ''process'' q \<or> is_substring ''step'' q
                then [''procedural''] else [])
      else if i = ''command'' then [''procedural'', ''profile'']
      else [''episodic'', ''semantic'', ''profile''])"

definition calculate_confidence :: "string \<Rightarrow> string list \<Rightarrow> string \<Rightarrow> real" where
  "calculate_confidence i kws q =
     (let c0 = 5 / 10;
          c1 = (if length kws \<ge> 3 then c0 + 1 / 10 else c0);
          c2 = (if length kws \<ge> 5 then c1 + 1 / 10 else c1);
          c3 = (if i = ''recall'' then c2 + 2 / 10
                else if i = ''question'' then c2 + 15 / 100
                else if i = ''command'' then c2 + 15 / 100
                else c2);
          words = length (split_ws q);
          c4 = (if 5 \<le> words \<and> words \<le> 30 then c3 + 1 / 10
                else if words > 30 then c3 - 1 / 10
                else c3)
      in clamp01 c4)"

definition analyze :: "string \<Rightarrow> QueryAnalysis" where
  "analyze query =
     (let query_lower = strip (lower query);
          i = detect_intent query_lower;
          kws = extract_keywords query
      in \<lparr> original_query = query,
           intent = i,
           query_keywords = kws,
           time_reference = detect_time_reference query_lower,
           requires_memory = decide_requires_memory i query_lower,
           memory_types_needed = determine_memory_types i query_lower,
           confidence = calculate_confidence i kws query_lower \<rparr>)"

subsection \<open>Example queries\<close>

definition scenario_a_query :: string where
  "scenario_a_query = ''What did I tell you about my dog last week?''"

section \<open>Properties of the ranker\<close>

subsection \<open>Bounds and monotonicity of the sub-scores\<close>

lemma clamp01_bounds: "0 \<le> clamp01 x \<and> clamp01 x \<le> 1"
  by (simp add: clamp01_def)

lemma clamp01_mono: "x \<le> y \<Longrightarrow> clamp01 x \<le> clamp01 y"
  by (simp add: clamp01_def min_def max_def)



lemma calculate_frequency_score_bounds:
  "0 \<le> calculate_frequency_score n \<and> calculate_frequency_score n \<le> 1"
  by (simp add: calculate_frequency_score_def clamp01_bounds)

lemma calculate_recency_score_bounds:
  "0 \<le> calculate_recency_score t \<and> calculate_recency_score t \<le> 1"
  by (simp add: calculate_recency_score_def Let_def clamp01_bounds
        split: option.split timestamp.split)

lemma decay_as_power:
  "exp (- (ln 2 / 30) * real_of_int a) = 2 powr (- real_of_int a / 30)"
  by (simp add: powr_def)

lemma two_pow_1024: "(2::real) ^ 1024 = 2 powr 1024"
proof -
  have "(2::real) powr (real (1024::nat)) = 2 ^ (1024::nat)"
    by (rule powr_realpow) simp
  then show ?thesis by simp
qed

lemma py_exp_decay:
  "py_exp (- (ln 2 / 30) * real_of_int a) =
     (if a \<le> - 30720 then None else Some (2 powr (- real_of_int a / 30)))"
proof -
  have "((2::real) powr 1024 \<le> 2 powr (- real_of_int a / 30)) = (1024 \<le> - real_of_int a / 30)"
    by (rule powr_le_cancel_iff) simp
  also have "\<dots> = (a \<le> - 30720)" by auto
  finally have "((2::real) ^ 1024 \<le> exp (- (ln 2 / 30) * real_of_int a)) = (a \<le> - 30720)"
    unfolding decay_as_power two_pow_1024 .
  then show ?thesis
    unfolding py_exp_def decay_as_power[symmetric] by simp
qed

lemma recency_of_age:
  "calculate_recency_score (Some (AgeDays a)) =
     (if a \<le> - 30720 then 1 / 2 else clamp01 (2 powr (- real_of_int a / 30)))"
  unfolding calculate_recency_score_def Let_def
  by (simp only: timestamp.case option.case py_exp_decay split: if_split) simp

lemma recency_mono:
  assumes "- 30720 < c" and "c \<le> d"
  shows "calculate_recency_score (Some (AgeDays d)) \<le> calculate_recency_score (Some (AgeDays c))"
proof -
  have "(2::real) powr (- real_of_int d / 30) \<le> 2 powr (- real_of_int c / 30)"
    using assms by (intro powr_mono) auto
  then show ?thesis
    using assms by (simp add: recency_of_age clamp01_mono)
qed

lemma frequency_mono:
  assumes "a \<le> b"
  shows "calculate_frequency_score a \<le> calculate_frequency_score b"
proof (cases "a \<le> 0")
  case True
  then show ?thesis
    using calculate_frequency_score_bounds[of b] by (simp add: calculate_frequency_score_def)
next
  case False
  then have pos: "0 < a" "0 < b" using assms by auto
  have "ln (1 + real_of_int a) \<le> ln (1 + real_of_int b)"
    using pos assms by simp
  then have "ln (1 + real_of_int a) / ln (1 + 1000) \<le> ln (1 + real_of_int b) / ln (1 + 1000)"
    by (intro divide_right_mono) auto
  then show ?thesis
    using pos by (simp add: calculate_frequency_score_def clamp01_mono)
qed

text \<open>
  Claim C7, as amended. \<open>calculate_frequency_score\<close> is non-decreasing in the access
  count, is 0 for every count at most 0, and lies in \<open>[0, 1]\<close>.
  \<open>calculate_recency_score\<close> lies in \<open>[0, 1]\<close> for every value of \<open>created_at\<close>, and is
  non-increasing in the age in days over all ages above \<open>-30720\<close> days: every timestamp
  of the past, and every timestamp less than 30720 days ahead of the clock. For timestamps
  further ahead \<^verbatim>\<open>math.exp\<close> overflows and the handler returns the default 0.5.
\<close>

theorem frequency_recency_monotone:
  "(a \<le> b \<longrightarrow> calculate_frequency_score a \<le> calculate_frequency_score b)
   \<and> (a \<le> 0 \<longrightarrow> calculate_frequency_score a = 0)
   \<and> (- 30720 < c \<and> c \<le> d \<longrightarrow>
        calculate_recency_score (Some (AgeDays d)) \<le> calculate_recency_score (Some (AgeDays c)))
   \<and> 0 \<le> calculate_frequency_score a \<and> calculate_frequency_score a \<le> 1
   \<and> 0 \<le> calculate_recency_score t \<and> calculate_recency_score t \<le> 1"
  using frequency_mono[of a b] recency_mono[of c d]
    calculate_frequency_score_bounds[of a] calculate_recency_score_bounds[of t]
  by (simp add: calculate_frequency_score_def)

text \<open>The theorem at access counts 1 and 2, at count 0, and at ages 0 and 30 days.\<close>

theorem frequency_recency_monotone_witness:
  "(1::int) \<le> 2 \<and> calculate_frequency_score 1 \<le> calculate_frequency_score 2
   \<and> (0::int) \<le> 0 \<and> calculate_frequency_score 0 = 0
   \<and> (- 30720 :: int) < 0 \<and> (0::int) \<le> 30
   \<and> calculate_recency_score (Some (AgeDays 30)) \<le> calculate_recency_score (Some (AgeDays 0))"
  using frequency_recency_monotone[of 1 2 0 30 None]
    frequency_recency_monotone[of 0 0 0 0 None]
  by simp

text \<open>
  Claim C7 as stated fails for a timestamp far in the future: at an age of \<open>-40000\<close> days
  the exponent is about 924, \<^verbatim>\<open>math.exp\<close> raises \<^verbatim>\<open>OverflowError\<close>, and the score is the
  handler's 0.5; at the larger age 0 the score is 1.
\<close>

theorem recency_not_monotone_counterexample:
  "(- 40000 :: int) \<le> 0
   \<and> calculate_recency_score (Some (AgeDays (- 40000))) = 1 / 2
   \<and> calculate_recency_score (Some (AgeDays 0)) = 1
   \<and> \<not> calculate_recency_score (Some (AgeDays 0))
        \<le> calculate_recency_score (Some (AgeDays (- 40000)))"
  by (simp add: recency_of_age clamp01_def)

subsection \<open>The combined score\<close>






subsection \<open>Deduplication\<close>


lemma dict_set_subset: "set (dict_set k v ps) \<subseteq> insert (k, v) (set ps)"
  by (induction ps) auto

lemma memory_id_merge_results: "memory_id (merge_results a b) = memory_id a"
  by (simp add: merge_results_def)

lemma memory_id_update_scores: "memory_id (update_scores r s) = memory_id r"
  by (simp add: update_scores_def)


lemma dict_set_key_set: "fst ` set (dict_set k v ps) = insert k (fst ` set ps)"
  by (induction ps) auto

lemma loop_keys:
  "fst ` set (deduplicate_loop seen rs) =
     fst ` set seen \<union> {m. m \<noteq> [] \<and> (\<exists>r\<in>set rs. memory_id r = Some m)}"
proof (induction rs arbitrary: seen)
  case Nil
  then show ?case by simp
next
  case (Cons r rs)
  show ?case
  proof (cases "memory_id r")
    case None
    then show ?thesis by (auto simp: Cons.IH)
  next
    case (Some mid)
    note mid = this
    show ?thesis
    proof (cases "mid = []")
      case True
      then show ?thesis using mid by (auto simp: Cons.IH)
    next
      case False
      show ?thesis
      proof (cases "map_of seen mid")
        case None
        then show ?thesis using mid False by (auto simp: Cons.IH dict_set_key_set)
      next
        case (Some existing)
        then have "mid \<in> fst ` set seen" by (auto dest: map_of_SomeD intro: rev_image_eqI)
        then show ?thesis using mid False Some by (auto simp: Cons.IH dict_set_key_set)
      qed
    qed
  qed
qed

lemma dict_set_all:
  "\<forall>p\<in>set ps. Q p \<Longrightarrow> Q (k, v) \<Longrightarrow> \<forall>p\<in>set (dict_set k v ps). Q p"
  by (induction ps) auto

lemma loop_ids:
  "\<forall>p\<in>set seen. memory_id (snd p) = Some (fst p) \<and> fst p \<noteq> [] \<Longrightarrow>
   \<forall>p\<in>set (deduplicate_loop seen rs). memory_id (snd p) = Some (fst p) \<and> fst p \<noteq> []"
proof (induction rs arbitrary: seen)
  case Nil
  then show ?case by simp
next
  case (Cons r rs)
  show ?case
  proof (cases "memory_id r")
    case None
    then have "deduplicate_loop seen (r # rs) = deduplicate_loop seen rs" by simp
    then show ?thesis using Cons.IH[OF Cons.prems] by simp
  next
    case (Some mid)
    note mid = this
    show ?thesis
    proof (cases "mid = []")
      case True
      then have "deduplicate_loop seen (r # rs) = deduplicate_loop seen rs"
        using mid by simp
      then show ?thesis using Cons.IH[OF Cons.prems] by simp
    next
      case False
      show ?thesis
      proof (cases "map_of seen mid")
        case None
        have step: "deduplicate_loop seen (r # rs) = deduplicate_loop (dict_set mid r seen) rs"
          using mid False None by simp
        have "\<forall>p\<in>set (dict_set mid r seen). memory_id (snd p) = Some (fst p) \<and> fst p \<noteq> []"
          by (rule dict_set_all[OF Cons.prems]) (simp add: mid False)
        then show ?thesis unfolding step by (rule Cons.IH)
      next
        case (Some existing)
        then have "(mid, existing) \<in> set seen" by (rule map_of_SomeD)
        then have e: "memory_id existing = Some mid" using Cons.prems by force
        show ?thesis
        proof (cases "get0 (score r) > get0 (score existing)")
          case True
          have step: "deduplicate_loop seen (r # rs) =
              deduplicate_loop (dict_set mid (merge_results existing r) seen) rs"
            using mid False Some True by simp
          have "\<forall>p\<in>set (dict_set mid (merge_results existing r) seen).
                  memory_id (snd p) = Some (fst p) \<and> fst p \<noteq> []"
            by (rule dict_set_all[OF Cons.prems]) (simp add: memory_id_merge_results e False)
          then show ?thesis unfolding step by (rule Cons.IH)
        next
          case no: False
          have step: "deduplicate_loop seen (r # rs) = deduplicate_loop seen rs"
            using mid False Some no by simp
          show ?thesis unfolding step by (rule Cons.IH) (rule Cons.prems)
        qed
      qed
    qed
  qed
qed

lemma deduplicate_ids:
  "map memory_id (deduplicate rs) = map Some (map fst (deduplicate_loop [] rs))"
  using loop_ids[of "[]" rs] by (simp add: deduplicate_def)



lemma deduplicate_id_set:
  "set (map memory_id (deduplicate rs)) =
     Some ` {m. m \<noteq> [] \<and> (\<exists>r\<in>set rs. memory_id r = Some m)}"
proof -
  have "set (map memory_id (deduplicate rs)) = Some ` (fst ` set (deduplicate_loop [] rs))"
    unfolding deduplicate_ids by (simp add: image_image)
  then show ?thesis unfolding loop_keys by simp
qed



lemma rank_set:
  "set (rank self rs d) \<subseteq>
     (\<lambda>r. update_scores r (calculate_scores self r)) ` set (if d then deduplicate rs else rs)"
  by (simp add: rank_def sort_by_score_def)


















text \<open>
  Claim C10. With \<open>deduplicate = True\<close> every record returned by \<open>rank\<close> has a
  \<open>memory_id\<close> that is present and non-empty: results whose \<open>memory_id\<close> is missing,
  \<^verbatim>\<open>None\<close> or empty are dropped. With \<open>deduplicate = False\<close> the output is, up to order,
  the input with every record scored, so those results are retained.
\<close>

theorem rank_drops_missing_ids:
  "(\<forall>r\<in>set (rank self rs True). truthy_str (memory_id r))
   \<and> mset (rank self rs False) = mset (map (\<lambda>r. update_scores r (calculate_scores self r)) rs)"
proof -
  have "truthy_str v" if "v \<in> set (map memory_id (deduplicate rs))" for v
    using that unfolding deduplicate_id_set by (auto simp: truthy_str_def)
  then have "\<forall>r\<in>set (deduplicate rs). truthy_str (memory_id r)" by simp
  then have "\<forall>r\<in>set (rank self rs True). truthy_str (memory_id r)"
    using rank_set[of self rs True] by (auto simp: memory_id_update_scores)
  moreover have "mset (rank self rs False) =
      mset (map (\<lambda>r. update_scores r (calculate_scores self r)) rs)"
    by (simp add: rank_def sort_by_score_def)
  ultimately show ?thesis by simp
qed

text \<open>The theorem on a list of one result without \<open>memory_id\<close> and one with.\<close>

theorem rank_drops_missing_ids_witness:
  "map (\<lambda>r. truthy_str (memory_id r))
      (rank default_ranker [empty_result, scenario_b_keyword] True) = [True]
   \<and> map memory_id (rank default_ranker [empty_result, scenario_b_keyword] True) = [Some ''m1'']
   \<and> size (mset (rank default_ranker [empty_result, scenario_b_keyword] False)) = 2"
proof -
  note t = rank_drops_missing_ids[of default_ranker "[empty_result, scenario_b_keyword]"]
  have d: "deduplicate [empty_result, scenario_b_keyword] = [scenario_b_keyword]"
    by (simp add: deduplicate_def empty_result_def scenario_b_keyword_def)
  have r: "rank default_ranker [empty_result, scenario_b_keyword] True =
      [update_scores scenario_b_keyword (calculate_scores default_ranker scenario_b_keyword)]"
    by (simp add: rank_def d sort_by_score_def)
  have i: "memory_id scenario_b_keyword = Some ''m1''"
    by (simp add: scenario_b_keyword_def empty_result_def)
  show ?thesis
    using t unfolding r by (simp add: memory_id_update_scores i truthy_str_def)
qed

section \<open>Properties of the context builder\<close>

subsection \<open>Greedy packing\<close>












subsection \<open>Budget reallocation\<close>

lemma surplus_pool_Nil: "surplus_pool [] demand = 0"
  by (simp add: surplus_pool_def)

lemma surplus_pool_Cons:
  "surplus_pool ((cat, b) # base) demand =
     (case map_of demand cat of None \<Rightarrow> 0 | Some d \<Rightarrow> if d < b then b - d else 0)
       + surplus_pool base demand"
  by (simp add: surplus_pool_def)

lemma over_budget_Nil: "over_budget [] demand = []"
  by (simp add: over_budget_def)

lemma over_budget_Cons:
  "over_budget ((cat, b) # base) demand =
     (if (case map_of demand cat of None \<Rightarrow> False | Some d \<Rightarrow> d > b) then [cat] else [])
       @ over_budget base demand"
  by (simp add: over_budget_def)

lemma scan_budget_step:
  "scan_budget demand (u, n) (cat, b) =
     (u + (case map_of demand cat of None \<Rightarrow> 0 | Some d \<Rightarrow> if d < b then b - d else 0),
      n @ (if (case map_of demand cat of None \<Rightarrow> False | Some d \<Rightarrow> d > b) then [cat] else []))"
  by (simp add: scan_budget_def split: option.splits)

lemma scan_fold:
  "foldl (scan_budget demand) (u, n) base
     = (u + surplus_pool base demand, n @ over_budget base demand)"
proof (induction base arbitrary: u n)
  case Nil
  then show ?case by (simp add: surplus_pool_Nil over_budget_Nil)
next
  case (Cons p base)
  obtain cat b where p: "p = (cat, b)" by (cases p)
  show ?case
    by (simp add: p scan_budget_step Cons.IH surplus_pool_Cons over_budget_Cons)
qed

lemma map_of_dict_add:
  "map_of (dict_add c x bs) k =
     (case map_of bs k of None \<Rightarrow> None | Some v \<Rightarrow> Some (if k = c then v + x else v))"
  by (induction bs) (auto split: option.splits)

lemma map_of_fold_dict_add:
  "distinct cats \<Longrightarrow>
   map_of (foldl (\<lambda>budgets cat. dict_add cat x budgets) bs cats) k =
     (case map_of bs k of None \<Rightarrow> None | Some v \<Rightarrow> Some (if k \<in> set cats then v + x else v))"
proof (induction cats arbitrary: bs)
  case Nil
  then show ?case by (simp split: option.splits)
next
  case (Cons c cats)
  then have d: "distinct cats" and c: "c \<notin> set cats" by simp_all
  have "map_of (foldl (\<lambda>budgets cat. dict_add cat x budgets) bs (c # cats)) k
      = map_of (foldl (\<lambda>budgets cat. dict_add cat x budgets) (dict_add c x bs) cats) k"
    by simp
  also have "\<dots> = (case map_of (dict_add c x bs) k of
                      None \<Rightarrow> None | Some v \<Rightarrow> Some (if k \<in> set cats then v + x else v))"
    by (rule Cons.IH[OF d])
  also have "\<dots> = (case map_of bs k of
                      None \<Rightarrow> None | Some v \<Rightarrow> Some (if k \<in> set (c # cats) then v + x else v))"
    using c by (auto simp: map_of_dict_add split: option.splits)
  finally show ?case .
qed

lemma over_budget_distinct: "distinct (map fst base) \<Longrightarrow> distinct (over_budget base demand)"
  by (simp add: over_budget_def distinct_map_filter)

lemma base_budgets_distinct: "distinct (map fst (base_budgets self))"
  by (simp add: base_budgets_def)

lemma reallocate_budgets_lookup:
  "map_of (reallocate_budgets self demand limit) cat =
     (case map_of (base_budgets self) cat of
        None \<Rightarrow> None
      | Some b \<Rightarrow>
          Some (if cat \<in> set (over_budget (base_budgets self) demand)
                   \<and> 0 < surplus_pool (base_budgets self) demand
                then b + surplus_pool (base_budgets self) demand
                           div int (length (over_budget (base_budgets self) demand))
                else b))"
proof -
  let ?pool = "surplus_pool (base_budgets self) demand"
  let ?over = "over_budget (base_budgets self) demand"
  have scan: "foldl (scan_budget demand) (0, []) (base_budgets self) = (?pool, ?over)"
    using scan_fold[of demand 0 "[]" "base_budgets self"] by simp
  show ?thesis
  proof (cases "?pool > 0 \<and> ?over \<noteq> []")
    case True
    have "reallocate_budgets self demand limit =
        foldl (\<lambda>budgets cat. dict_add cat (?pool div int (length ?over)) budgets)
          (base_budgets self) ?over"
      using True by (simp add: reallocate_budgets_def scan Let_def)
    then show ?thesis
      using True map_of_fold_dict_add[OF over_budget_distinct[OF base_budgets_distinct],
          where x = "?pool div int (length ?over)" and bs = "base_budgets self" and k = cat]
      by (simp split: option.splits)
  next
    case False
    then have "reallocate_budgets self demand limit = base_budgets self"
      by (auto simp: reallocate_budgets_def scan)
    then show ?thesis using False by (auto split: option.splits)
  qed
qed

lemma scenario_d_pool:
  assumes "pe > episodic_tokens self" and "ps \<le> profile_tokens self"
    and "ss \<le> semantic_tokens self" and "0 \<le> procedural_tokens self"
  shows "surplus_pool (base_budgets self)
           [(''profile'', ps), (''semantic'', ss), (''episodic'', pe), (''procedural'', 0)]
         = procedural_tokens self + (profile_tokens self - ps) + (semantic_tokens self - ss)"
    and "over_budget (base_budgets self)
           [(''profile'', ps), (''semantic'', ss), (''episodic'', pe), (''procedural'', 0)]
         = [''episodic'']"
  using assms by (simp_all add: base_budgets_def surplus_pool_def over_budget_def)

text \<open>
  Claim C5. The budget \<open>reallocate_budgets\<close> gives a category is its base budget, raised by
  the surplus pool divided (by integer division) by the number of over-budget categories
  when the category is over budget and the pool is positive; every other budget is
  unchanged. In particular, when the procedural bucket is empty and episodic is the only
  over-budget category, the episodic budget is raised by the whole procedural budget,
  together with the surplus of the profile and semantic categories.
\<close>

theorem reallocate_budgets_pools_surplus:
  "map_of (reallocate_budgets self demand limit) cat =
     (case map_of (base_budgets self) cat of
        None \<Rightarrow> None
      | Some b \<Rightarrow>
          Some (if cat \<in> set (over_budget (base_budgets self) demand)
                   \<and> 0 < surplus_pool (base_budgets self) demand
                then b + surplus_pool (base_budgets self) demand
                           div int (length (over_budget (base_budgets self) demand))
                else b))
   \<and> (pe > episodic_tokens self \<and> ps \<le> profile_tokens self \<and> ss \<le> semantic_tokens self
        \<and> 0 \<le> procedural_tokens self \<longrightarrow>
        map_of (reallocate_budgets self
                  [(''profile'', ps), (''semantic'', ss), (''episodic'', pe), (''procedural'', 0)]
                  limit) ''episodic''
          = Some (episodic_tokens self
                  + (procedural_tokens self + (profile_tokens self - ps)
                      + (semantic_tokens self - ss)))
        \<and> map_of (reallocate_budgets self
                  [(''profile'', ps), (''semantic'', ss), (''episodic'', pe), (''procedural'', 0)]
                  limit) ''procedural''
          = Some (procedural_tokens self))"
proof -
  have "map_of (reallocate_budgets self
                  [(''profile'', ps), (''semantic'', ss), (''episodic'', pe), (''procedural'', 0)]
                  limit) ''episodic''
          = Some (episodic_tokens self
                  + (procedural_tokens self + (profile_tokens self - ps)
                      + (semantic_tokens self - ss)))
        \<and> map_of (reallocate_budgets self
                  [(''profile'', ps), (''semantic'', ss), (''episodic'', pe), (''procedural'', 0)]
                  limit) ''procedural''
          = Some (procedural_tokens self)"
    if h: "pe > episodic_tokens self" "ps \<le> profile_tokens self" "ss \<le> semantic_tokens self"
      "0 \<le> procedural_tokens self"
    unfolding reallocate_budgets_lookup scenario_d_pool[OF h]
    using h by (simp add: base_budgets_def)
  then show ?thesis using reallocate_budgets_lookup[of self demand limit cat] by blast
qed

text \<open>
  The theorem at the default budgets, with demands 10, 1500, 2000 and 0: the episodic
  budget becomes 1500 + 400 + 590.
\<close>

theorem reallocate_budgets_pools_surplus_witness:
  "map_of (reallocate_budgets default_builder
             [(''profile'', 10), (''semantic'', 1500), (''episodic'', 2000), (''procedural'', 0)]
             5000) ''episodic'' = Some 2490
   \<and> (2490 :: int) = 1500 + (400 + (600 - 10) + (1500 - 1500))
   \<and> map_of (reallocate_budgets default_builder
             [(''profile'', 10), (''semantic'', 1500), (''episodic'', 2000), (''procedural'', 0)]
             5000) ''procedural'' = Some 400"
proof -
  have b: "episodic_tokens default_builder = 1500" "profile_tokens default_builder = 600"
    "semantic_tokens default_builder = 1500" "procedural_tokens default_builder = 400"
    by (simp_all add: default_builder_def ContextBuilder_init_def or_default_int_def
        default_settings_def)
  show ?thesis
    using reallocate_budgets_pools_surplus[of default_builder "[]" 5000 "''episodic''"
        2000 10 1500]
    by (simp add: b)
qed

subsection \<open>Totals of the built context\<close>

lemma build_totals:
  assumes "build self ms mt e = Inr c"
  shows "total_tokens c =
           min (calculate_total_tokens (token_counter self) (profile_memories c)
                  (semantic_memories c) (episodic_memories c) (procedural_memories c)
                  (entity_context c))
               (or_default_int mt (max_tokens self))
         \<and> total_tokens c \<le> or_default_int mt (max_tokens self)
         \<and> truncated c =
             (calculate_total_tokens (token_counter self) (profile_memories c)
                  (semantic_memories c) (episodic_memories c) (procedural_memories c)
                  (entity_context c) > or_default_int mt (max_tokens self))"
  using assms unfolding build_def Let_def
  by (auto split: sum.splits)

lemma adaptive_build_totals:
  assumes "adaptive_build self ms mt e = Inr c"
  shows "total_tokens c =
           calculate_total_tokens (token_counter self) (profile_memories c)
                  (semantic_memories c) (episodic_memories c) (procedural_memories c)
                  (entity_context c)
         \<and> truncated c =
             (calculate_total_tokens (token_counter self) (profile_memories c)
                  (semantic_memories c) (episodic_memories c) (procedural_memories c)
                  (entity_context c) > or_default_int mt (max_tokens self))"
  using assms unfolding adaptive_build_def Let_def
  by (auto split: sum.splits)

lemma tokens_semantic_of_size:
  "count_tokens estimating_counter (content_of (semantic_of_size n)) = n div 4"
  by (simp add: count_tokens_def estimating_counter_def content_of_def semantic_of_size_def
      get_or_def empty_memory_def)

lemma make_semantic_of_size:
  "make_semantic_memory (semantic_of_size n) =
     Inr \<lparr> mem_id = ''00000000-0000-4000-8000-000000000002'', mem_user_id = [],
           mem_content = replicate n (CHR ''a''), mem_keywords = [], mem_reliability = 1 / 2,
           topic = ''general'', fact = replicate n (CHR ''a'') \<rparr>"
  by (simp add: make_semantic_memory_def semantic_of_size_def empty_memory_def content_of_def
      get_or_def validate_id_def validate_reliability_def Let_def)

lemma categorize_single_semantic:
  "categorize_memories [semantic_of_size n] =
     [(''profile'', []), (''semantic'', [semantic_of_size n]), (''episodic'', []),
      (''procedural'', [])]"
proof -
  have "get_or (m_memory_type (semantic_of_size n)) ''semantic'' = ''semantic''"
    by (simp add: semantic_of_size_def empty_memory_def get_or_def)
  then show ?thesis by (simp add: categorize_memories_def Let_def)
qed

lemma default_builder_fields:
  "token_counter default_builder = estimating_counter"
  "max_tokens default_builder = 5000"
  "profile_tokens default_builder = 600"
  "semantic_tokens default_builder = 1500"
  "episodic_tokens default_builder = 1500"
  "procedural_tokens default_builder = 400"
  "entity_tokens default_builder = 300"
  by (simp_all add: default_builder_def ContextBuilder_init_def or_default_int_def
      default_settings_def)

lemma count_replicate: "count_tokens estimating_counter (replicate n c) = n div 4"
  by (simp add: count_tokens_def estimating_counter_def)

lemma single_semantic_buckets:
  "bucket [(''profile'', []), (''semantic'', [x]), (''episodic'', []), (''procedural'', [])]
     ''profile'' = []"
  "bucket [(''profile'', []), (''semantic'', [x]), (''episodic'', []), (''procedural'', [])]
     ''semantic'' = [x]"
  "bucket [(''profile'', []), (''semantic'', [x]), (''episodic'', []), (''procedural'', [])]
     ''episodic'' = []"
  "bucket [(''profile'', []), (''semantic'', [x]), (''episodic'', []), (''procedural'', [])]
     ''procedural'' = []"
  by (simp_all add: bucket_def get_or_def)

lemma empty_sections:
  "build_profile_section tc [] b = Inr []"
  "build_episodic_section tc [] b = Inr []"
  "build_procedural_section tc [] b = Inr []"
  by (simp_all add: build_profile_section_def build_episodic_section_def
      build_procedural_section_def)

lemma pack_single_semantic:
  "20 \<le> budget \<Longrightarrow>
   build_semantic_section estimating_counter [semantic_of_size 80] budget
     = Inr [\<lparr> mem_id = ''00000000-0000-4000-8000-000000000002'', mem_user_id = [],
           mem_content = replicate 80 (CHR ''a''), mem_keywords = [], mem_reliability = 1 / 2,
           topic = ''general'', fact = replicate 80 (CHR ''a'') \<rparr>]"
  by (simp add: build_semantic_section_def tokens_semantic_of_size make_semantic_of_size)

lemma base_build_example:
  "totals_of (build default_builder [semantic_of_size 80] (Some 10) None) = Some (10, True)"
  by (simp add: build_def Let_def totals_of_def categorize_single_semantic
      single_semantic_buckets default_builder_fields pack_single_semantic empty_sections
      truncate_entity_def calculate_total_tokens_def or_default_int_def count_replicate)

lemma reallocate_example:
  "reallocate_budgets default_builder
     (category_sizes_of estimating_counter
        [(''profile'', []), (''semantic'', [semantic_of_size 80]), (''episodic'', []),
         (''procedural'', [])]) 10
   = [(''profile'', 600), (''semantic'', 1500), (''episodic'', 1500), (''procedural'', 400),
      (''entity'', 300)]"
  by (simp add: reallocate_budgets_def category_sizes_of_def
      tokens_semantic_of_size base_budgets_def default_builder_fields scan_budget_def)

text \<open>
  Claim C2 holds for \<open>build\<close> (lemma \<open>build_totals\<close>) and fails for the adaptive variant,
  which returns the raw sum uncapped. For one semantic memory of 20 tokens and
  \<^verbatim>\<open>max_tokens=10\<close>, \<open>adaptive_build\<close> returns \<open>total_tokens = 20\<close>, above \<open>max_tokens\<close>, where
  the claim requires \<open>min 20 10 = 10\<close>, the value \<open>build\<close> returns on the same input
  (lemma \<open>base_build_example\<close>).
\<close>

theorem adaptive_build_exceeds_max_tokens:
  "totals_of (adaptive_build default_builder [semantic_of_size 80] (Some 10) None)
     = Some (20, True)"
  by (simp add: adaptive_build_def Let_def totals_of_def categorize_single_semantic
      default_builder_fields reallocate_example budget_of_def
      single_semantic_buckets pack_single_semantic empty_sections get_or_def
      truncate_entity_def calculate_total_tokens_def or_default_int_def count_replicate)

section \<open>Properties of the query analyzer\<close>

subsection \<open>Memory types\<close>

lemma any_match_iff: "any_match ps q = (\<exists>p\<in>set ps. search p q)"
  by (induction ps) auto

lemma search_at:
  assumes "i \<le> length s" and "match_seq p s i \<noteq> []"
  shows "search p s"
proof -
  have "i \<in> set [0..<Suc (length s)]"
    unfolding set_upt atLeastLessThan_iff using assms(1) by (intro conjI le0 le_imp_less_Suc)
  then show ?thesis unfolding search_def list_ex_iff using assms(2) by blast
qed

lemma determine_memory_types_nonempty: "2 \<le> length (determine_memory_types i q)"
  by (simp add: determine_memory_types_def)

text \<open>
  Claim C9. For every query, the analysis has a non-empty \<open>memory_types_needed\<close> whenever
  its \<open>requires_memory\<close> is true. (The list has at least two entries for every intent.)
\<close>

theorem memory_types_nonempty_when_required:
  "requires_memory (analyze query) \<longrightarrow> memory_types_needed (analyze query) \<noteq> []"
proof -
  have "2 \<le> length (memory_types_needed (analyze query))"
    by (simp add: analyze_def Let_def determine_memory_types_nonempty)
  then show ?thesis by auto
qed

subsection \<open>Blank queries\<close>

lemma is_space_not_word: "is_space c \<Longrightarrow> \<not> is_word_char c"
  by (auto simp: is_space_def is_word_char_def Let_def)

lemma is_space_lower_char: "is_space c \<Longrightarrow> lower_char c = c"
  by (auto simp: is_space_def lower_char_def Let_def)

lemma lower_blank: "\<forall>c\<in>set q. is_space c \<Longrightarrow> lower q = q"
  by (simp add: lower_def is_space_lower_char map_idI)

lemma strip_blank:
  assumes "\<forall>c\<in>set q. is_space c"
  shows "strip q = []"
proof -
  have d: "dropWhile is_space q = []" using assms by (simp add: dropWhile_eq_Nil_conv)
  show ?thesis unfolding strip_def d by simp
qed

lemma word_runs_blank: "\<forall>c\<in>set q. is_space c \<Longrightarrow> word_runs [] q = []"
  by (induction q) (simp_all add: is_space_not_word)

lemma extract_keywords_blank: "\<forall>c\<in>set q. is_space c \<Longrightarrow> extract_keywords q = []"
  by (simp add: extract_keywords_def lower_blank findall_words_def word_runs_blank)

lemma detect_intent_empty: "detect_intent [] = ''conversation''"
  by code_simp

lemma detect_time_reference_empty: "detect_time_reference [] = None"
  by code_simp

lemma calculate_confidence_empty: "calculate_confidence ''conversation'' [] [] = 1 / 2"
  by (simp add: calculate_confidence_def Let_def split_ws_def clamp01_def)

lemma decide_requires_memory_conversation: "decide_requires_memory ''conversation'' q = True"
  by (simp add: decide_requires_memory_def)

lemma determine_memory_types_conversation:
  "determine_memory_types ''conversation'' q = [''episodic'', ''semantic'', ''profile'']"
  by (simp add: determine_memory_types_def)

lemma analyze_blank:
  assumes "\<forall>c\<in>set query. is_space c"
  shows "analyze query =
    \<lparr> original_query = query, intent = ''conversation'', query_keywords = [],
      time_reference = None, requires_memory = True,
      memory_types_needed = [''episodic'', ''semantic'', ''profile''], confidence = 1 / 2 \<rparr>"
proof -
  have q: "strip (lower query) = []"
    using assms by (simp add: lower_blank strip_blank)
  show ?thesis
    unfolding analyze_def Let_def q detect_intent_empty detect_time_reference_empty
      extract_keywords_blank[OF assms] calculate_confidence_empty
      decide_requires_memory_conversation determine_memory_types_conversation
    by simp
qed

text \<open>The theorem at the empty query, whose analysis requires memory.\<close>

theorem memory_types_nonempty_when_required_witness:
  "requires_memory (analyze []) \<and> memory_types_needed (analyze []) \<noteq> []"
  using memory_types_nonempty_when_required[of "[]"] by (simp add: analyze_blank)

text \<open>
  Claim C8. For every query that is empty or consists of whitespace only, \<open>analyze\<close>
  returns (it is a total function: no operation of the source raises on a string) the
  analysis with intent \<^verbatim>\<open>conversation\<close>, no keywords, no time reference, and the confidence
  0.5: the base value, below the 0.6 under which \<^verbatim>\<open>analyze_with_llm\<close> treats a confidence
  as low.
\<close>

theorem analyze_blank_query:
  "(\<forall>c\<in>set query. is_space c) \<longrightarrow>
     analyze query =
       \<lparr> original_query = query, intent = ''conversation'', query_keywords = [],
         time_reference = None, requires_memory = True,
         memory_types_needed = [''episodic'', ''semantic'', ''profile''], confidence = 1 / 2 \<rparr>
     \<and> confidence (analyze query) < 6 / 10"
  by (simp add: analyze_blank)

text \<open>The theorem at the query of one space and at the empty query.\<close>

theorem analyze_blank_query_witness:
  "intent (analyze '' '') = ''conversation'' \<and> query_keywords (analyze '' '') = []
   \<and> confidence (analyze '' '') = 1 / 2
   \<and> intent (analyze []) = ''conversation'' \<and> query_keywords (analyze []) = []
   \<and> confidence (analyze []) = 1 / 2"
proof -
  have s: "\<forall>c\<in>set '' ''. is_space c" by (simp add: is_space_def)
  show ?thesis
    using analyze_blank_query[of "'' ''"] analyze_blank_query[of "[]"] s by simp
qed

subsection \<open>The order of the intent patterns, and scenario A\<close>

lemma scenario_a_lower:
  "strip (lower scenario_a_query) = ''what did i tell you about my dog last week?''"
  by code_simp

lemma scenario_a_recall:
  "search [WordBoundary, Words [''what was'', ''what were'', ''what did''], WordBoundary]
     ''what did i tell you about my dog last week?''"
proof (rule search_at[where i = 0])
  show "match_seq [WordBoundary, Words [''what was'', ''what were'', ''what did''], WordBoundary]
      ''what did i tell you about my dog last week?'' 0 \<noteq> []"
    by code_simp
qed simp

lemma scenario_a_question:
  "search [Bos,
       Words [''what'', ''who'', ''where'', ''when'', ''why'', ''how'', ''which'', ''can'',
              ''could'', ''would'', ''should'', ''is'', ''are'', ''do'', ''does''],
       WordBoundary] ''what did i tell you about my dog last week?''"
proof (rule search_at[where i = 0])
  show "match_seq [Bos,
       Words [''what'', ''who'', ''where'', ''when'', ''why'', ''how'', ''which'', ''can'',
              ''could'', ''would'', ''should'', ''is'', ''are'', ''do'', ''does''],
       WordBoundary] ''what did i tell you about my dog last week?'' 0 \<noteq> []"
    by code_simp
qed simp

lemma scenario_a_not_present:
  "\<not> search [WordBoundary, Words [''today'', ''now'', ''currently''], WordBoundary]
     ''what did i tell you about my dog last week?''"
  by code_simp

lemma scenario_a_not_recent:
  "\<not> search [WordBoundary, Words [''yesterday'', ''last night''], WordBoundary]
     ''what did i tell you about my dog last week?''"
  by code_simp

lemma scenario_a_week:
  "search [WordBoundary, Words [''last week'', ''past week''], WordBoundary]
     ''what did i tell you about my dog last week?''"
proof (rule search_at[where i = 33])
  show "match_seq [WordBoundary, Words [''last week'', ''past week''], WordBoundary]
      ''what did i tell you about my dog last week?'' 33 \<noteq> []"
    by code_simp
qed simp

lemma scenario_a_recall_any:
  "\<exists>p\<in>set recall_patterns. search p (strip (lower scenario_a_query))"
  unfolding scenario_a_lower using scenario_a_recall by (simp add: recall_patterns_def)

lemma scenario_a_question_any:
  "\<exists>p\<in>set question_patterns. search p (strip (lower scenario_a_query))"
  unfolding scenario_a_lower using scenario_a_question by (simp add: question_patterns_def)

lemma scenario_a_intent: "detect_intent (strip (lower scenario_a_query)) = ''recall''"
  using scenario_a_recall_any by (simp add: detect_intent_def any_match_iff)

lemma scenario_a_time: "detect_time_reference (strip (lower scenario_a_query)) = Some ''week''"
  unfolding scenario_a_lower
  by (simp add: detect_time_reference_def time_patterns_def scenario_a_not_present
      scenario_a_not_recent scenario_a_week)

text \<open>
  Claim C6. \<open>detect_intent\<close> tests the pattern groups in the order recall, command,
  question: a query on which a recall pattern matches is classified \<^verbatim>\<open>recall\<close> whatever else
  matches, then a command match wins over a question match, and a query on which no pattern
  matches is \<^verbatim>\<open>conversation\<close>. The query of scenario A matches both a recall pattern
  (\<^verbatim>\<open>what did\<close>) and a question pattern; its analysis has intent \<^verbatim>\<open>recall\<close>, time reference
  \<^verbatim>\<open>week\<close>, \<open>requires_memory\<close> true, and all four memory kinds in \<open>memory_types_needed\<close>.
\<close>

theorem intent_order_recall_first:
  "((\<exists>p\<in>set recall_patterns. search p q) \<longrightarrow> detect_intent q = ''recall'')
   \<and> (\<not> (\<exists>p\<in>set recall_patterns. search p q) \<and> (\<exists>p\<in>set command_patterns. search p q)
        \<longrightarrow> detect_intent q = ''command'')
   \<and> (\<not> (\<exists>p\<in>set recall_patterns. search p q) \<and> \<not> (\<exists>p\<in>set command_patterns. search p q)
        \<and> (\<exists>p\<in>set question_patterns. search p q) \<longrightarrow> detect_intent q = ''question'')
   \<and> (\<not> (\<exists>p\<in>set recall_patterns. search p q) \<and> \<not> (\<exists>p\<in>set command_patterns. search p q)
        \<and> \<not> (\<exists>p\<in>set question_patterns. search p q) \<longrightarrow> detect_intent q = ''conversation'')
   \<and> (\<exists>p\<in>set recall_patterns. search p (strip (lower scenario_a_query)))
   \<and> (\<exists>p\<in>set question_patterns. search p (strip (lower scenario_a_query)))
   \<and> intent (analyze scenario_a_query) = ''recall''
   \<and> time_reference (analyze scenario_a_query) = Some ''week''
   \<and> requires_memory (analyze scenario_a_query)
   \<and> memory_types_needed (analyze scenario_a_query)
       = [''profile'', ''semantic'', ''episodic'', ''procedural'']"
proof -
  have order: "detect_intent q =
      (if \<exists>p\<in>set recall_patterns. search p q then ''recall''
       else if \<exists>p\<in>set command_patterns. search p q then ''command''
       else if \<exists>p\<in>set question_patterns. search p q then ''question''
       else ''conversation'')"
    by (simp add: detect_intent_def any_match_iff)
  have a: "intent (analyze scenario_a_query) = ''recall''"
    by (simp add: analyze_def Let_def scenario_a_intent)
  have b: "time_reference (analyze scenario_a_query) = Some ''week''"
    by (simp add: analyze_def Let_def scenario_a_time)
  have c: "requires_memory (analyze scenario_a_query)"
    by (simp add: analyze_def Let_def scenario_a_intent decide_requires_memory_def)
  have d: "memory_types_needed (analyze scenario_a_query)
       = [''profile'', ''semantic'', ''episodic'', ''procedural'']"
    by (simp add: analyze_def Let_def scenario_a_intent determine_memory_types_def)
  show ?thesis
    using order scenario_a_recall_any scenario_a_question_any a b c d by simp
qed

text \<open>The general part of the theorem at the lowered query of scenario A.\<close>

theorem intent_order_recall_first_witness:
  "any_match recall_patterns (strip (lower scenario_a_query))
   \<and> any_match question_patterns (strip (lower scenario_a_query))
   \<and> detect_intent (strip (lower scenario_a_query)) = ''recall''"
  using intent_order_recall_first[of "strip (lower scenario_a_query)"]
  by (simp add: any_match_iff)

end
